theory Spec2Isabelle
  imports Complex_Main "HOL-Library.Sublist"
begin

section \<open>Order lifecycle and rider assignment of the delivery API\<close>

text \<open>
  The development embeds the route handlers that drive an order through its life:
  \<^item> \<^verbatim>\<open>POST /\<close> of \<^verbatim>\<open>routes/orderRoute.js\<close> (create an order),
  \<^item> \<^verbatim>\<open>PATCH /:orderId/status\<close> of the same file (the rider's status update),
  \<^item> \<^verbatim>\<open>POST /orders/:orderId/assign\<close> of the admin routes,
  \<^item> \<^verbatim>\<open>POST /location\<close> and \<^verbatim>\<open>POST /orders/:orderId/fail\<close> of the rider routes.

  A handler is a function from the database before the request to either an error
  response or the response document, the database after the request and the events
  handed to the socket server. Every \<^verbatim>\<open>new Date()\<close> of a handler is an
  argument of its model, one per occurrence in the source, in source order.
  Each handler runs from its first to its last statement without another request in
  between. A handler awaits each of its database calls, so the calls of another request
  can run between any two of them; the assignment is also given cut in two, between its
  last read and its first write, so that the steps of two requests can alternate.
  The error responses 404 and 400 are sent before the first write of their handler, so
  the database after such an error is the database before the request. The location
  update is given with its \<^verbatim>\<open>catch\<close> block: it emits after it has written.
\<close>

subsection \<open>Values of a request body\<close>

type_synonym oid = nat
type_synonym uid = nat
type_synonym date = nat

text \<open>
  A field of \<^verbatim>\<open>req.body\<close> is a JSON value, or \<^verbatim>\<open>undefined\<close> when the
  body has no such field. Numbers are the reals they denote. \<open>truthy\<close> is the
  conversion to a boolean that \<^verbatim>\<open>&&\<close> and \<^verbatim>\<open>?:\<close> apply: \<^verbatim>\<open>undefined\<close>,
  \<^verbatim>\<open>null\<close>, \<^verbatim>\<open>false\<close>, \<^verbatim>\<open>0\<close> and the empty string are false, every
  array and object is true.
\<close>

datatype jsval =
  Undefined | Null | Bool bool | Num real | Str string
| Arr "jsval list" | Obj "(string \<times> jsval) list"

fun truthy :: "jsval \<Rightarrow> bool" where
  "truthy Undefined = False"
| "truthy Null = False"
| "truthy (Bool b) = b"
| "truthy (Num x) = (x \<noteq> 0)"
| "truthy (Str s) = (s \<noteq> [])"
| "truthy (Arr xs) = True"
| "truthy (Obj kvs) = True"

subsection \<open>Documents\<close>

text \<open>
  Modelled from the spec: the Mongoose schemas \<^verbatim>\<open>models/Order.js\<close>,
  \<^verbatim>\<open>models/RiderLocation.js\<close> and \<^verbatim>\<open>models/User.js\<close> are not among the
  sources. The records below hold the fields that the handlers read and write, with
  the defaults the data model of the specification gives them: a new order has status
  \<^verbatim>\<open>pending\<close> and no rider, failure reason or actual delivery time; the status is
  a string, stored as the handler sets it; a rider location has at most one current
  order and there is one record per rider.
\<close>

record timelineEntry =
  te_status :: string
  te_timestamp :: date
  te_notes :: jsval
  te_location :: "(jsval \<times> jsval) option"

text \<open>
  The pickup and dropoff places, the delivery window, the customer and the product of
  an order are the fields of the request that created it; no handler modelled here
  reads them again.
\<close>

record orderDetails =
  pickupAddress :: string
  pickupCoordinates :: "jsval \<times> jsval"
  dropoffAddress :: string
  dropoffCoordinates :: "jsval \<times> jsval"
  deliveryDate :: string
  deliveryTime :: string
  customerName :: string
  customerPhone :: string
  productDescription :: string
  productWeight :: string
  productImages :: "string list"

record order =
  order_id :: oid
  business :: uid
  rider :: "uid option"
  details :: orderDetails
  status :: string
  timeline :: "timelineEntry list"
  failureReason :: "string option"
  actualDeliveryTime :: "date option"

record riderLocation =
  location :: "jsval \<times> jsval"
  isOnline :: bool
  currentOrder :: "oid option"

record user =
  role :: string
  isActive :: bool

text \<open>
  The database: the users and the rider locations are keyed by the user identifier,
  the orders are the documents of the collection in insertion order.
\<close>

record db =
  users :: "uid \<rightharpoonup> user"
  orders :: "order list"
  riderLocations :: "uid \<rightharpoonup> riderLocation"

subsection \<open>Responses and events\<close>

text \<open>
  \<open>NotFound\<close> is a response of status 404, \<open>Conflict\<close> the response of status 400
  of the assignment handler, \<open>ServerError\<close> the response of status 500 of a
  \<^verbatim>\<open>catch\<close> block; each carries the message of the response.
\<close>

datatype error = NotFound string | Conflict string | ServerError string

text \<open>
  An event is what a handler passes to \<^verbatim>\<open>global.io.to(`order-${id}`).emit\<close>: the
  order of the room, and the payload. The status update of the status route always has
  a \<^verbatim>\<open>location\<close> object and never a reason; that of the fail route has the
  reason and no location.
\<close>

datatype event =
  StatusUpdate oid oid string date "(jsval \<times> jsval) option" "string option"
| LocationUpdate oid oid "jsval \<times> jsval" date

text \<open>
  What becomes of an event passed to \<^verbatim>\<open>emit\<close>: the call returns and the event
  reaches the subscribers of the room, or the call returns and the event is dropped (a
  room with no subscriber), or the call throws. A handler sees the last only.
\<close>

datatype emitOutcome = Delivered | Dropped | Thrown

subsection \<open>Queries and writes\<close>

definition activeStatuses :: "string list" where
  "activeStatuses = [''assigned'', ''picked_up'', ''in_transit'']"

definition isActiveOrder :: "order \<Rightarrow> bool" where
  "isActiveOrder ord = (status ord \<in> set activeStatuses)"

text \<open>\<^verbatim>\<open>Order.findById(id)\<close>.\<close>

definition findById :: "oid \<Rightarrow> db \<Rightarrow> order option" where
  "findById i st = List.find (\<lambda>x. order_id x = i) (orders st)"

text \<open>\<^verbatim>\<open>Order.findOne({ _id: id, rider: r })\<close>.\<close>

definition findOwned :: "oid \<Rightarrow> uid \<Rightarrow> db \<Rightarrow> order option" where
  "findOwned i r st = List.find (\<lambda>x. order_id x = i \<and> rider x = Some r) (orders st)"

text \<open>\<^verbatim>\<open>Order.findOne({ rider: r, status: { $in: ['assigned', 'picked_up', 'in_transit'] } })\<close>.\<close>

definition findActiveOrder :: "uid \<Rightarrow> db \<Rightarrow> order option" where
  "findActiveOrder r st = List.find (\<lambda>x. rider x = Some r \<and> isActiveOrder x) (orders st)"

text \<open>\<^verbatim>\<open>User.findOne({ _id: r, role: 'rider', isActive: true })\<close>.\<close>

definition findActiveRider :: "uid \<Rightarrow> db \<Rightarrow> user option" where
  "findActiveRider r st =
     (case users st r of
        None \<Rightarrow> None
      | Some u \<Rightarrow> if role u = ''rider'' \<and> isActive u then Some u else None)"

text \<open>\<^verbatim>\<open>order.save()\<close> of a document read from the collection: the stored document
  of the same identifier is replaced.\<close>

definition save :: "order \<Rightarrow> db \<Rightarrow> db" where
  "save ord st =
     st\<lparr>orders := map (\<lambda>x. if order_id x = order_id ord then ord else x) (orders st)\<rparr>"

text \<open>\<^verbatim>\<open>RiderLocation.findOneAndUpdate({ rider: r }, { currentOrder: i })\<close>, without
  \<^verbatim>\<open>upsert\<close>: a rider with no location record gets none.\<close>

definition setCurrentOrder :: "uid \<Rightarrow> oid \<Rightarrow> db \<Rightarrow> db" where
  "setCurrentOrder r i st =
     (case riderLocations st r of
        None \<Rightarrow> st
      | Some l \<Rightarrow> st\<lparr>riderLocations := (riderLocations st)(r \<mapsto> l\<lparr>currentOrder := Some i\<rparr>)\<rparr>)"

text \<open>\<^verbatim>\<open>RiderLocation.findOneAndUpdate({ rider: r }, { $unset: { currentOrder: 1 } })\<close>.\<close>

definition unsetCurrentOrder :: "uid \<Rightarrow> db \<Rightarrow> db" where
  "unsetCurrentOrder r st =
     (case riderLocations st r of
        None \<Rightarrow> st
      | Some l \<Rightarrow> st\<lparr>riderLocations := (riderLocations st)(r \<mapsto> l\<lparr>currentOrder := None\<rparr>)\<rparr>)"

subsection \<open>The handlers\<close>

text \<open>
  \<^verbatim>\<open>POST /\<close> (create order), after the validation of the body and the upload of
  the images, which produce \<open>d\<close>. \<open>newId\<close> is the identifier that
  \<^verbatim>\<open>new Order\<close> generates; the insert of an identifier that is already stored is
  refused by the collection, which the \<^verbatim>\<open>catch\<close> block answers.
\<close>

definition createOrder :: "db \<Rightarrow> oid \<Rightarrow> uid \<Rightarrow> orderDetails \<Rightarrow> date \<Rightarrow> error + (order \<times> db)" where
  "createOrder st newId biz d now =
     (if newId \<in> set (map order_id (orders st)) then Inl (ServerError ''Server error'')
      else
        let ord = \<lparr>order_id = newId, business = biz, rider = None, details = d,
                   status = ''pending'',
                   timeline = [\<lparr>te_status = ''pending'', te_timestamp = now,
                                te_notes = Str ''Order created'', te_location = None\<rparr>],
                   failureReason = None, actualDeliveryTime = None\<rparr>
        in Inr (ord, st\<lparr>orders := orders st @ [ord]\<rparr>))"

text \<open>
  \<^verbatim>\<open>PATCH /:orderId/status\<close> (update order status, rider). \<open>tEntry\<close>,
  \<open>tDelivered\<close> and \<open>tEvent\<close> are the three \<^verbatim>\<open>new Date()\<close> of the handler.
\<close>

definition transition ::
  "db \<Rightarrow> oid \<Rightarrow> uid \<Rightarrow> string \<Rightarrow> jsval \<Rightarrow> jsval \<Rightarrow> jsval \<Rightarrow> date \<Rightarrow> date \<Rightarrow> date
     \<Rightarrow> error + (order \<times> db \<times> event list)" where
  "transition st orderId actor newStatus notes latitude longitude tEntry tDelivered tEvent =
     (case findOwned orderId actor st of
        None \<Rightarrow> Inl (NotFound ''Order not found'')
      | Some ord \<Rightarrow>
          let ord1 = ord\<lparr>status := newStatus,
                         timeline := timeline ord @
                           [\<lparr>te_status = newStatus, te_timestamp = tEntry, te_notes = notes,
                             te_location = (if truthy latitude \<and> truthy longitude
                                            then Some (latitude, longitude) else None)\<rparr>]\<rparr>;
              ord2 = (if newStatus = ''delivered''
                      then ord1\<lparr>actualDeliveryTime := Some tDelivered\<rparr> else ord1)
          in Inr (ord2, save ord2 st,
                  [StatusUpdate (order_id ord2) (order_id ord2) newStatus tEvent
                     (Some (latitude, longitude)) None]))"

text \<open>\<^verbatim>\<open>POST /orders/:orderId/assign\<close> (assign order to rider).\<close>

definition assign :: "db \<Rightarrow> oid \<Rightarrow> uid \<Rightarrow> date \<Rightarrow> error + (order \<times> db)" where
  "assign st orderId riderId now =
     (case findById orderId st of
        None \<Rightarrow> Inl (NotFound ''Order not found'')
      | Some ord \<Rightarrow>
          (case findActiveRider riderId st of
             None \<Rightarrow> Inl (NotFound ''Rider not found or inactive'')
           | Some _ \<Rightarrow>
               (case findActiveOrder riderId st of
                  Some _ \<Rightarrow> Inl (Conflict ''Rider already has an active order'')
                | None \<Rightarrow>
                    let ord1 = ord\<lparr>rider := Some riderId, status := ''assigned'',
                                   timeline := timeline ord @
                                     [\<lparr>te_status = ''assigned'', te_timestamp = now,
                                       te_notes = Str ''Order assigned to rider'',
                                       te_location = None\<rparr>]\<rparr>
                    in Inr (ord1, setCurrentOrder riderId (order_id ord1) (save ord1 st)))))"

text \<open>
  The assignment in two steps. \<open>assignCheck\<close> is the handler up to its decision:
  the three reads \<^verbatim>\<open>Order.findById\<close>, \<^verbatim>\<open>User.findOne\<close> and
  \<^verbatim>\<open>Order.findOne\<close> and the error responses; it answers with the order document it
  has read. \<open>assignWrite\<close> is the rest: the update of that document,
  \<^verbatim>\<open>order.save()\<close> and \<^verbatim>\<open>RiderLocation.findOneAndUpdate\<close>, on the database as
  it is when the writes run.
\<close>

definition assignCheck :: "db \<Rightarrow> oid \<Rightarrow> uid \<Rightarrow> error + order" where
  "assignCheck st orderId riderId =
     (case findById orderId st of
        None \<Rightarrow> Inl (NotFound ''Order not found'')
      | Some ord \<Rightarrow>
          (case findActiveRider riderId st of
             None \<Rightarrow> Inl (NotFound ''Rider not found or inactive'')
           | Some _ \<Rightarrow>
               (case findActiveOrder riderId st of
                  Some _ \<Rightarrow> Inl (Conflict ''Rider already has an active order'')
                | None \<Rightarrow> Inr ord)))"

definition assignWrite :: "db \<Rightarrow> order \<Rightarrow> uid \<Rightarrow> date \<Rightarrow> order \<times> db" where
  "assignWrite st ord riderId now =
     (let ord1 = ord\<lparr>rider := Some riderId, status := ''assigned'',
                    timeline := timeline ord @
                      [\<lparr>te_status = ''assigned'', te_timestamp = now,
                        te_notes = Str ''Order assigned to rider'',
                        te_location = None\<rparr>]\<rparr>
      in (ord1, setCurrentOrder riderId (order_id ord1) (save ord1 st)))"

text \<open>
  \<^verbatim>\<open>POST /location\<close> (update rider location). \<open>isOnlineArg\<close> is \<open>None\<close> when
  the body has no \<^verbatim>\<open>isOnline\<close>. The update is an upsert: a new record has the
  fields of the update and no current order. \<open>emit\<close> is the socket server: what
  becomes of an event passed to \<^verbatim>\<open>global.io.to(room).emit\<close>. The call is inside the
  \<^verbatim>\<open>try\<close> block and after the write, so when it throws the \<^verbatim>\<open>catch\<close> block
  answers 500 and the record stays written. The third component of the result are the
  events passed to the call.
\<close>

definition updateLocation ::
  "db \<Rightarrow> uid \<Rightarrow> jsval \<Rightarrow> jsval \<Rightarrow> bool option \<Rightarrow> date \<Rightarrow> (event \<Rightarrow> emitOutcome)
     \<Rightarrow> (error + riderLocation) \<times> db \<times> event list" where
  "updateLocation st riderId latitude longitude isOnlineArg now emit =
     (let online = (case isOnlineArg of Some b \<Rightarrow> b | None \<Rightarrow> True);
          loc = (case riderLocations st riderId of
                   None \<Rightarrow> \<lparr>location = (latitude, longitude), isOnline = online,
                             currentOrder = None\<rparr>
                 | Some l \<Rightarrow> l\<lparr>location := (latitude, longitude), isOnline := online\<rparr>);
          st' = st\<lparr>riderLocations := (riderLocations st)(riderId \<mapsto> loc)\<rparr>
      in (case currentOrder loc of
            None \<Rightarrow> (Inr loc, st', [])
          | Some c \<Rightarrow>
              (if emit (LocationUpdate c c (latitude, longitude) now) = Thrown
               then Inl (ServerError ''Server error'') else Inr loc,
               st', [LocationUpdate c c (latitude, longitude) now])))"

text \<open>
  \<^verbatim>\<open>POST /orders/:orderId/fail\<close> (mark order as failed with reason). \<open>tEntry\<close>
  and \<open>tEvent\<close> are the two \<^verbatim>\<open>new Date()\<close> of the handler.
\<close>

definition failOrder ::
  "db \<Rightarrow> oid \<Rightarrow> uid \<Rightarrow> string \<Rightarrow> date \<Rightarrow> date \<Rightarrow> error + (order \<times> db \<times> event list)" where
  "failOrder st orderId actor reason tEntry tEvent =
     (case findOwned orderId actor st of
        None \<Rightarrow> Inl (NotFound ''Order not found'')
      | Some ord \<Rightarrow>
          let ord1 = ord\<lparr>status := ''failed'', failureReason := Some reason,
                         timeline := timeline ord @
                           [\<lparr>te_status = ''failed'', te_timestamp = tEntry,
                             te_notes = Str (''Delivery failed: '' @ reason),
                             te_location = None\<rparr>]\<rparr>
          in Inr (ord1, unsetCurrentOrder actor (save ord1 st),
                  [StatusUpdate (order_id ord1) (order_id ord1) ''failed'' tEvent
                     None (Some reason)]))"

subsection \<open>Sequences of requests\<close>

text \<open>
  The four requests that change an order, with the arguments of their handlers, and the
  database they leave: that of the handler when it answers with the document, the
  database before the request when it answers with an error.
\<close>

datatype request =
  Create oid uid orderDetails date
| Assign oid uid date
| Transition oid uid string jsval jsval jsval date date date
| Fail oid uid string date date

fun handle :: "db \<Rightarrow> request \<Rightarrow> db" where
  "handle st (Create i b d t) =
     (case createOrder st i b d t of Inl _ \<Rightarrow> st | Inr (_, st') \<Rightarrow> st')"
| "handle st (Assign i r t) =
     (case assign st i r t of Inl _ \<Rightarrow> st | Inr (_, st') \<Rightarrow> st')"
| "handle st (Transition i a s n la lo t1 t2 t3) =
     (case transition st i a s n la lo t1 t2 t3 of Inl _ \<Rightarrow> st | Inr (_, st', _) \<Rightarrow> st')"
| "handle st (Fail i a reason t1 t2) =
     (case failOrder st i a reason t1 t2 of Inl _ \<Rightarrow> st | Inr (_, st', _) \<Rightarrow> st')"

definition serve :: "db \<Rightarrow> request list \<Rightarrow> db" where
  "serve st reqs = foldl handle st reqs"

text \<open>The reading of the server clock that a request writes into the timeline.\<close>

fun requestTime :: "request \<Rightarrow> date" where
  "requestTime (Create i b d t) = t"
| "requestTime (Assign i r t) = t"
| "requestTime (Transition i a s n la lo t1 t2 t3) = t1"
| "requestTime (Fail i a reason t1 t2) = t1"

subsection \<open>Properties of a database\<close>

text \<open>The orders of rider \<open>r\<close> whose status is one of the three active ones.\<close>

definition activeOrdersOf :: "uid \<Rightarrow> db \<Rightarrow> order list" where
  "activeOrdersOf r st = filter (\<lambda>x. rider x = Some r \<and> isActiveOrder x) (orders st)"

text \<open>
  No rider has two active orders. Only the riders that some order names need a look:
  any other rider has no order at all (lemma \<open>atMostOneActive_iff\<close> below).
\<close>

definition atMostOneActive :: "db \<Rightarrow> bool" where
  "atMostOneActive st =
     (\<forall>x\<in>set (orders st). case rider x of
                               None \<Rightarrow> True
                             | Some r \<Rightarrow> length (activeOrdersOf r st) \<le> 1)"

text \<open>
  A request is exclusive in a database unless it is a status update to an active status
  by a rider who has an active order other than the one updated.
\<close>

fun exclusive :: "db \<Rightarrow> request \<Rightarrow> bool" where
  "exclusive st (Transition i a s n la lo t1 t2 t3) =
     (s \<in> set activeStatuses \<longrightarrow>
        (\<forall>x\<in>set (orders st). rider x = Some a \<and> isActiveOrder x \<longrightarrow> order_id x = i))"
| "exclusive st _ = True"

text \<open>The timeline of an order is not empty and its last entry has the status of the
  order.\<close>

definition timelineOk :: "order \<Rightarrow> bool" where
  "timelineOk ord =
     (timeline ord \<noteq> [] \<and> te_status (last (timeline ord)) = status ord)"

text \<open>The timestamps of the timeline of an order never decrease, and none is later
  than \<open>t\<close>.\<close>

definition timestampsOk :: "date \<Rightarrow> order \<Rightarrow> bool" where
  "timestampsOk t ord =
     (sorted (map te_timestamp (timeline ord)) \<and>
      (\<forall>e\<in>set (timeline ord). te_timestamp e \<le> t))"

text \<open>Identifiers are a key of the collection, and every timeline ends with the status
  of its order.\<close>

definition storeOk :: "db \<Rightarrow> bool" where
  "storeOk st =
     (distinct (map order_id (orders st)) \<and> (\<forall>x\<in>set (orders st). timelineOk x))"

text \<open>Every order of \<open>st\<close> is still in \<open>st'\<close>, and its timeline there starts with the
  timeline it has in \<open>st\<close>.\<close>

definition extends :: "db \<Rightarrow> db \<Rightarrow> bool" where
  "extends st st' =
     (\<forall>x\<in>set (orders st). \<exists>y\<in>set (orders st').
         order_id y = order_id x \<and> prefix (timeline x) (timeline y))"

subsection \<open>Sample data\<close>

definition sampleDetails :: orderDetails where
  "sampleDetails =
     \<lparr>pickupAddress = ''A'', pickupCoordinates = (Num 1, Num 2),
      dropoffAddress = ''B'', dropoffCoordinates = (Num 3, Num 4),
      deliveryDate = ''2025-01-01'', deliveryTime = ''10:00'',
      customerName = ''C'', customerPhone = ''1'', productDescription = ''box'',
      productWeight = ''2'', productImages = []\<rparr>"

text \<open>An order of business 1 that got its only timeline entry at time 5.\<close>

definition sampleOrder :: "oid \<Rightarrow> uid option \<Rightarrow> string \<Rightarrow> order" where
  "sampleOrder i r s =
     \<lparr>order_id = i, business = 1, rider = r, details = sampleDetails, status = s,
      timeline = [\<lparr>te_status = s, te_timestamp = 5, te_notes = Str ''n'',
                   te_location = None\<rparr>],
      failureReason = None, actualDeliveryTime = None\<rparr>"

definition activeRider :: user where
  "activeRider = \<lparr>role = ''rider'', isActive = True\<rparr>"

definition offlineAt :: "oid option \<Rightarrow> riderLocation" where
  "offlineAt c = \<lparr>location = (Num 0, Num 0), isOnline = False, currentOrder = c\<rparr>"

text \<open>Riders 7 and 8 are active; rider 7 has a location record, rider 8 has none.\<close>

definition sampleDb :: "order list \<Rightarrow> oid option \<Rightarrow> db" where
  "sampleDb os c =
     \<lparr>users = [7 \<mapsto> activeRider, 8 \<mapsto> activeRider], orders = os,
      riderLocations = [7 \<mapsto> offlineAt c]\<rparr>"

text \<open>The database after the pending order 1 has been assigned to rider 7 at time 6.\<close>

definition assignedDb :: db where
  "assignedDb = snd (projr (assign (sampleDb [sampleOrder 1 None ''pending''] None) 1 7 6))"

text \<open>Two pending orders, and rider 7 with no order.\<close>

definition twoPendingDb :: db where
  "twoPendingDb = sampleDb [sampleOrder 1 None ''pending'', sampleOrder 2 None ''pending''] None"

text \<open>Both orders are assigned to rider 7 by two requests that overlap: the reads
  of both run on the database with the two pending orders, then the writes of the first
  at time 10, then the writes of the second at time 11.\<close>

definition racedDb :: db where
  "racedDb =
     snd (assignWrite
            (snd (assignWrite twoPendingDb (projr (assignCheck twoPendingDb 1 7)) 7 10))
            (projr (assignCheck twoPendingDb 2 7)) 7 11)"

text \<open>Order 1 is created, assigned to rider 7 and delivered; order 2 is created and
  assigned to rider 7. Then rider 7 sets order 1 to \<^verbatim>\<open>in_transit\<close>.\<close>

definition history :: "request list" where
  "history =
     [Create 1 1 sampleDetails 1, Assign 1 7 2,
      Transition 1 7 ''delivered'' (Str ''done'') Undefined Undefined 3 3 3,
      Create 2 1 sampleDetails 4, Assign 2 7 5]"

definition reopen :: request where
  "reopen = Transition 1 7 ''in_transit'' Undefined Undefined Undefined 6 6 6"

section \<open>Queries and writes\<close>

lemma find_SomeD: "List.find P xs = Some x \<Longrightarrow> x \<in> set xs \<and> P x"
  by (induction xs) (auto split: if_splits)

lemma find_ex: "x \<in> set xs \<Longrightarrow> P x \<Longrightarrow> \<exists>y. List.find P xs = Some y"
  by (cases "List.find P xs") (auto simp: find_None_iff)

lemma distinct_same_id:
  "distinct (map f xs) \<Longrightarrow> x \<in> set xs \<Longrightarrow> y \<in> set xs \<Longrightarrow> f x = f y \<Longrightarrow> x = y"
  by (meson distinct_map inj_onD)

lemma findById_None_iff:
  "(findById i st = None) = (\<forall>x\<in>set (orders st). order_id x \<noteq> i)"
  by (auto simp: findById_def find_None_iff)

lemma findById_SomeD:
  "findById i st = Some ord \<Longrightarrow> ord \<in> set (orders st) \<and> order_id ord = i"
  using find_SomeD [of "\<lambda>x. order_id x = i" "orders st" ord]
  by (simp add: findById_def)

lemma findOwned_None_iff:
  "(findOwned i a st = None) =
     (\<not> (\<exists>x\<in>set (orders st). order_id x = i \<and> rider x = Some a))"
  by (auto simp: findOwned_def find_None_iff)

lemma findOwned_SomeD:
  "findOwned i a st = Some ord \<Longrightarrow>
     ord \<in> set (orders st) \<and> order_id ord = i \<and> rider ord = Some a"
  using find_SomeD [of "\<lambda>x. order_id x = i \<and> rider x = Some a" "orders st" ord]
  by (simp add: findOwned_def)

lemma findActiveRider_Some_iff:
  "(\<exists>u. findActiveRider r st = Some u) =
     (\<exists>u. users st r = Some u \<and> role u = ''rider'' \<and> isActive u)"
  by (auto simp: findActiveRider_def split: option.splits)

lemma findActiveOrder_None_iff:
  "(findActiveOrder r st = None) =
     (\<forall>x\<in>set (orders st). rider x = Some r \<longrightarrow> \<not> isActiveOrder x)"
  by (auto simp: findActiveOrder_def find_None_iff)

lemma save_users [simp]: "users (save ord st) = users st"
  by (simp add: save_def)

lemma save_riderLocations [simp]: "riderLocations (save ord st) = riderLocations st"
  by (simp add: save_def)

lemma set_save:
  "set (orders (save ord st)) =
     {x \<in> set (orders st). order_id x \<noteq> order_id ord} \<union>
     (if \<exists>x\<in>set (orders st). order_id x = order_id ord then {ord} else {})"
  by (auto simp: save_def)

lemma saved_mem:
  "x \<in> set (orders st) \<Longrightarrow> order_id x = order_id ord \<Longrightarrow> ord \<in> set (orders (save ord st))"
  by (auto simp: set_save)

lemma distinct_save:
  assumes "distinct (map order_id (orders st))"
  shows "distinct (map order_id (orders (save ord st)))"
proof -
  have "map order_id (orders (save ord st)) = map order_id (orders st)"
    by (simp add: save_def)
  with assms show ?thesis by simp
qed

lemma users_setCurrentOrder [simp]: "users (setCurrentOrder a i st) = users st"
  by (simp add: setCurrentOrder_def split: option.splits)

lemma orders_setCurrentOrder [simp]: "orders (setCurrentOrder a i st) = orders st"
  by (simp add: setCurrentOrder_def split: option.splits)

lemma orders_unsetCurrentOrder [simp]: "orders (unsetCurrentOrder a st) = orders st"
  by (simp add: unsetCurrentOrder_def split: option.splits)

section \<open>The location of a rider\<close>

text \<open>
  C8. \<^verbatim>\<open>updateLocation(riderId, coordinates, isOnline?)\<close> stores the rider's
  record under the rider's identifier: the record that was there with the new
  coordinates and online flag and its current order kept, or, when there was none, a new
  record with no current order. Nothing else in the database changes. It passes one
  location event to the socket server, for the room of the current order, when the
  record has one, and none otherwise. The record is written whatever becomes of the
  event: the database after the request is the same for every socket server, whether
  the event is delivered, dropped, or the call throws. The answer is the record when
  the event is delivered and when it is dropped, and the response 500 of the
  \<^verbatim>\<open>catch\<close> block, with the record written all the same, when the call throws.
\<close>

theorem updateLocation_upserts:
  "updateLocation st r lat lng onl now emit = (res, st', evs) \<Longrightarrow>
     (\<exists>loc.
        riderLocations st' = (riderLocations st)(r \<mapsto> loc) \<and>
        users st' = users st \<and> orders st' = orders st \<and>
        location loc = (lat, lng) \<and>
        isOnline loc = (case onl of None \<Rightarrow> True | Some b \<Rightarrow> b) \<and>
        currentOrder loc =
          (case riderLocations st r of None \<Rightarrow> None | Some l \<Rightarrow> currentOrder l) \<and>
        evs = (case currentOrder loc of
                 None \<Rightarrow> []
               | Some c \<Rightarrow> [LocationUpdate c c (lat, lng) now]) \<and>
        res = (if Thrown \<in> set (map emit evs)
               then Inl (ServerError ''Server error'') else Inr loc)) \<and>
     fst (snd (updateLocation st r lat lng onl now emit')) = st' \<and>
     snd (snd (updateLocation st r lat lng onl now emit')) = evs"
proof -
  let ?loc = "case riderLocations st r of
                None \<Rightarrow> \<lparr>location = (lat, lng),
                          isOnline = (case onl of None \<Rightarrow> True | Some b \<Rightarrow> b),
                          currentOrder = None\<rparr>
              | Some l \<Rightarrow> l\<lparr>location := (lat, lng),
                            isOnline := (case onl of None \<Rightarrow> True | Some b \<Rightarrow> b)\<rparr>"
  assume a: "updateLocation st r lat lng onl now emit = (res, st', evs)"
  then have "riderLocations st' = (riderLocations st)(r \<mapsto> ?loc) \<and>
        users st' = users st \<and> orders st' = orders st \<and>
        location ?loc = (lat, lng) \<and>
        isOnline ?loc = (case onl of None \<Rightarrow> True | Some b \<Rightarrow> b) \<and>
        currentOrder ?loc =
          (case riderLocations st r of None \<Rightarrow> None | Some l \<Rightarrow> currentOrder l) \<and>
        evs = (case currentOrder ?loc of
                 None \<Rightarrow> []
               | Some c \<Rightarrow> [LocationUpdate c c (lat, lng) now]) \<and>
        res = (if Thrown \<in> set (map emit evs)
               then Inl (ServerError ''Server error'') else Inr ?loc)"
    by (auto simp: updateLocation_def Let_def split: option.splits)
  moreover from a have "fst (snd (updateLocation st r lat lng onl now emit')) = st' \<and>
     snd (snd (updateLocation st r lat lng onl now emit')) = evs"
    by (auto simp: updateLocation_def Let_def split: option.splits)
  ultimately show ?thesis by blast
qed

text \<open>
  C8, at three requests. Rider 8, who has no record, gets one with no current order and
  no event is emitted. Rider 7, whose record points to order 1, keeps the pointer and an
  event goes to the room of order 1; the event is dropped and the answer is the record.
  When the call of the socket server throws on that event, the answer is the response
  500, and the record of rider 7 is written as it is when the event is delivered.
\<close>

theorem updateLocation_upserts_witness:
  "riderLocations (sampleDb [] None) 8 = None \<and>
   updateLocation (sampleDb [] None) 8 (Num 1) (Num 2) (Some False) 9 (\<lambda>e. Delivered) =
     (Inr \<lparr>location = (Num 1, Num 2), isOnline = False, currentOrder = None\<rparr>,
      (sampleDb [] None)\<lparr>riderLocations := (riderLocations (sampleDb [] None))
         (8 \<mapsto> \<lparr>location = (Num 1, Num 2), isOnline = False, currentOrder = None\<rparr>)\<rparr>,
      []) \<and>
   fst (updateLocation (sampleDb [] (Some 1)) 7 (Num 1) (Num 2) None 9 (\<lambda>e. Dropped)) =
     Inr \<lparr>location = (Num 1, Num 2), isOnline = True, currentOrder = Some 1\<rparr> \<and>
   snd (snd (updateLocation (sampleDb [] (Some 1)) 7 (Num 1) (Num 2) None 9 (\<lambda>e. Delivered))) =
     [LocationUpdate 1 1 (Num 1, Num 2) 9] \<and>
   fst (updateLocation (sampleDb [] (Some 1)) 7 (Num 1) (Num 2) None 9 (\<lambda>e. Thrown)) =
     Inl (ServerError ''Server error'') \<and>
   riderLocations
     (fst (snd (updateLocation (sampleDb [] (Some 1)) 7 (Num 1) (Num 2) None 9 (\<lambda>e. Thrown)))) 7 =
     Some \<lparr>location = (Num 1, Num 2), isOnline = True, currentOrder = Some 1\<rparr> \<and>
   fst (snd (updateLocation (sampleDb [] (Some 1)) 7 (Num 1) (Num 2) None 9 (\<lambda>e. Thrown))) =
     fst (snd (updateLocation (sampleDb [] (Some 1)) 7 (Num 1) (Num 2) None 9 (\<lambda>e. Delivered)))"
  using updateLocation_upserts [of "sampleDb [] None" 8 "Num 1" "Num 2" "Some False" 9
      "\<lambda>e. Delivered"
      "fst (updateLocation (sampleDb [] None) 8 (Num 1) (Num 2) (Some False) 9 (\<lambda>e. Delivered))"
      "fst (snd (updateLocation (sampleDb [] None) 8 (Num 1) (Num 2) (Some False) 9 (\<lambda>e. Delivered)))"
      "snd (snd (updateLocation (sampleDb [] None) 8 (Num 1) (Num 2) (Some False) 9 (\<lambda>e. Delivered)))"
      "\<lambda>e. Delivered"]
    updateLocation_upserts [of "sampleDb [] (Some 1)" 7 "Num 1" "Num 2" None 9
      "\<lambda>e. Thrown"
      "fst (updateLocation (sampleDb [] (Some 1)) 7 (Num 1) (Num 2) None 9 (\<lambda>e. Thrown))"
      "fst (snd (updateLocation (sampleDb [] (Some 1)) 7 (Num 1) (Num 2) None 9 (\<lambda>e. Thrown)))"
      "snd (snd (updateLocation (sampleDb [] (Some 1)) 7 (Num 1) (Num 2) None 9 (\<lambda>e. Thrown)))"
      "\<lambda>e. Delivered"]
  by (simp add: sampleDb_def offlineAt_def updateLocation_def Let_def)

text \<open>
  C10. When the body of the location update has no \<^verbatim>\<open>isOnline\<close>, the rider's
  record is stored with \<open>isOnline\<close> true, whatever the flag was before, also when it
  was false, and whatever becomes of the event; the stored record is the answer
  unless the call of the socket server throws.
\<close>

theorem updateLocation_default_online:
  "updateLocation st r lat lng None now emit = (res, st', evs) \<Longrightarrow>
     (\<exists>loc. riderLocations st' r = Some loc \<and> isOnline loc \<and>
        res = (if Thrown \<in> set (map emit evs)
               then Inl (ServerError ''Server error'') else Inr loc))"
proof -
  let ?loc = "case riderLocations st r of
                None \<Rightarrow> \<lparr>location = (lat, lng), isOnline = True, currentOrder = None\<rparr>
              | Some l \<Rightarrow> l\<lparr>location := (lat, lng), isOnline := True\<rparr>"
  assume "updateLocation st r lat lng None now emit = (res, st', evs)"
  then have "riderLocations st' r = Some ?loc \<and> isOnline ?loc \<and>
        res = (if Thrown \<in> set (map emit evs)
               then Inl (ServerError ''Server error'') else Inr ?loc)"
    by (auto simp: updateLocation_def Let_def split: option.splits)
  then show ?thesis by blast
qed

text \<open>C10, at the record of rider 7, who is offline before the update.\<close>

theorem updateLocation_default_online_witness:
  "riderLocations (sampleDb [] None) 7 = Some (offlineAt None) \<and>
   \<not> isOnline (offlineAt None) \<and>
   fst (updateLocation (sampleDb [] None) 7 (Num 1) (Num 2) None 9 (\<lambda>e. Delivered)) =
     Inr \<lparr>location = (Num 1, Num 2), isOnline = True, currentOrder = None\<rparr> \<and>
   riderLocations
     (fst (snd (updateLocation (sampleDb [] None) 7 (Num 1) (Num 2) None 9 (\<lambda>e. Delivered)))) 7 =
     Some \<lparr>location = (Num 1, Num 2), isOnline = True, currentOrder = None\<rparr>"
  using updateLocation_default_online [of "sampleDb [] None" 7 "Num 1" "Num 2" 9 "\<lambda>e. Delivered"
      "fst (updateLocation (sampleDb [] None) 7 (Num 1) (Num 2) None 9 (\<lambda>e. Delivered))"
      "fst (snd (updateLocation (sampleDb [] None) 7 (Num 1) (Num 2) None 9 (\<lambda>e. Delivered)))"
      "snd (snd (updateLocation (sampleDb [] None) 7 (Num 1) (Num 2) None 9 (\<lambda>e. Delivered)))"]
  by (simp add: sampleDb_def offlineAt_def updateLocation_def Let_def)

section \<open>Assignment\<close>

text \<open>
  What the assignment answers and writes, case by case: no order of the identifier; an
  order and no active rider of the identifier; order and rider, and an active order of
  the rider; none of these.
\<close>

lemma assign_outcomes:
  "((\<forall>x\<in>set (orders st). order_id x \<noteq> orderId) \<longrightarrow>
      assign st orderId riderId now = Inl (NotFound ''Order not found'')) \<and>
   ((\<exists>x\<in>set (orders st). order_id x = orderId) \<and>
    \<not> (\<exists>u. users st riderId = Some u \<and> role u = ''rider'' \<and> isActive u) \<longrightarrow>
      assign st orderId riderId now = Inl (NotFound ''Rider not found or inactive'')) \<and>
   ((\<exists>x\<in>set (orders st). order_id x = orderId) \<and>
    (\<exists>u. users st riderId = Some u \<and> role u = ''rider'' \<and> isActive u) \<and>
    (\<exists>x\<in>set (orders st). rider x = Some riderId \<and> isActiveOrder x) \<longrightarrow>
      assign st orderId riderId now = Inl (Conflict ''Rider already has an active order'')) \<and>
   ((\<exists>x\<in>set (orders st). order_id x = orderId) \<and>
    (\<exists>u. users st riderId = Some u \<and> role u = ''rider'' \<and> isActive u) \<and>
    (\<forall>x\<in>set (orders st). rider x = Some riderId \<longrightarrow> \<not> isActiveOrder x) \<longrightarrow>
      (\<exists>ord ord' st' e.
         findById orderId st = Some ord \<and>
         assign st orderId riderId now = Inr (ord', st') \<and>
         ord' = ord\<lparr>rider := Some riderId, status := ''assigned'',
                    timeline := timeline ord @ [e]\<rparr> \<and>
         te_status e = ''assigned'' \<and> te_timestamp e = now \<and>
         orders st' = map (\<lambda>x. if order_id x = orderId then ord' else x) (orders st) \<and>
         users st' = users st \<and>
         riderLocations st' =
           (case riderLocations st riderId of
              None \<Rightarrow> riderLocations st
            | Some l \<Rightarrow> (riderLocations st)(riderId \<mapsto> l\<lparr>currentOrder := Some orderId\<rparr>))))"
proof (cases "findById orderId st")
  case None
  then show ?thesis
    using findById_None_iff [of orderId st] by (auto simp: assign_def)
next
  case (Some ord)
  then have ex: "\<exists>x\<in>set (orders st). order_id x = orderId" and oid: "order_id ord = orderId"
    using findById_SomeD [of orderId st ord] by auto
  show ?thesis
  proof (cases "findActiveRider riderId st")
    case None
    then have "\<not> (\<exists>u. users st riderId = Some u \<and> role u = ''rider'' \<and> isActive u)"
      using findActiveRider_Some_iff [of riderId st] by simp
    with Some None ex show ?thesis
      by (auto simp: assign_def)
  next
    case r: (Some u)
    then have exr: "\<exists>u. users st riderId = Some u \<and> role u = ''rider'' \<and> isActive u"
      using findActiveRider_Some_iff [of riderId st] by blast
    show ?thesis
    proof (cases "findActiveOrder riderId st")
      case None
      then have "\<forall>x\<in>set (orders st). rider x = Some riderId \<longrightarrow> \<not> isActiveOrder x"
        by (simp add: findActiveOrder_None_iff)
      with Some r None ex exr oid show ?thesis
        by (auto simp: assign_def Let_def setCurrentOrder_def save_def split: option.splits)
    next
      case a: (Some act)
      then have "\<exists>x\<in>set (orders st). rider x = Some riderId \<and> isActiveOrder x"
        using findActiveOrder_None_iff [of riderId st] by auto
      with Some r a ex exr show ?thesis
        by (auto simp: assign_def)
    qed
  qed
qed

text \<open>The handler is its reads followed by its writes.\<close>

lemma split_is_assign:
  "assign st i r t =
     (case assignCheck st i r of Inl e \<Rightarrow> Inl e | Inr ord \<Rightarrow> Inr (assignWrite st ord r t))"
  by (simp add: assign_def assignCheck_def assignWrite_def Let_def split: option.splits)

lemma assignCheck_InrD:
  "assignCheck st i r = Inr ord \<Longrightarrow>
     ord \<in> set (orders st) \<and> order_id ord = i \<and> findActiveRider r st \<noteq> None \<and>
     findActiveOrder r st = None"
  using findById_SomeD [of i st ord]
  by (auto simp: assignCheck_def split: option.splits)

text \<open>
  C3. On success the assignment sets the rider and the status of the order, appends a
  timeline entry and sets the current order of the rider's location: the code does the
  last only when the rider has a location record, since its update of the record is no
  upsert. Order 1 is pending, riders 7 and 8 are active riders with no active order,
  rider 7 has a location record and rider 8 has none. Assigned to rider 7, the order
  becomes the current order of the record of rider 7. Assigned to rider 8, the order
  gets rider and status, and rider 8 has no location record afterwards, so no current
  order; the next location update of rider 8 creates the record with no current order
  and emits no event for the order that rider 8 holds.
\<close>

theorem assign_creates_no_location_record:
  "map_option currentOrder
     (riderLocations (snd (projr (assign (sampleDb [sampleOrder 1 None ''pending''] None) 1 7 10))) 7)
     = Some (Some 1) \<and>
   \<not> isl (assign (sampleDb [sampleOrder 1 None ''pending''] None) 1 8 10) \<and>
   rider (fst (projr (assign (sampleDb [sampleOrder 1 None ''pending''] None) 1 8 10))) = Some 8 \<and>
   status (fst (projr (assign (sampleDb [sampleOrder 1 None ''pending''] None) 1 8 10)))
     = ''assigned'' \<and>
   riderLocations (snd (projr (assign (sampleDb [sampleOrder 1 None ''pending''] None) 1 8 10))) 8
     = None \<and>
   updateLocation (snd (projr (assign (sampleDb [sampleOrder 1 None ''pending''] None) 1 8 10)))
       8 (Num 1) (Num 2) None 11 (\<lambda>e. Delivered) =
     (Inr \<lparr>location = (Num 1, Num 2), isOnline = True, currentOrder = None\<rparr>,
      (snd (projr (assign (sampleDb [sampleOrder 1 None ''pending''] None) 1 8 10)))
         \<lparr>riderLocations :=
            (riderLocations (snd (projr (assign (sampleDb [sampleOrder 1 None ''pending''] None) 1 8 10))))
            (8 \<mapsto> \<lparr>location = (Num 1, Num 2), isOnline = True, currentOrder = None\<rparr>)\<rparr>,
      [])"
  by (simp add: sampleDb_def sampleOrder_def activeRider_def offlineAt_def assign_def
        findById_def findActiveRider_def findActiveOrder_def isActiveOrder_def
        activeStatuses_def setCurrentOrder_def save_def updateLocation_def Let_def)

text \<open>
  C9. The assignment does not look at the status of the order or at the rider it has:
  whenever an order of the identifier exists, the rider is an active rider and no order
  of the rider is active, \<^verbatim>\<open>assign\<close> succeeds. The order it answers with is the
  stored order of the identifier (the order of the hypothesis, identifiers being a key)
  with the new rider in place of the rider it had, with the status \<^verbatim>\<open>assigned\<close>
  in place of the status it had, and with one more timeline entry; its other fields,
  the identifier among them, are those of the stored order. It is stored in the place
  of the stored order, every other order and the users are as before.
\<close>

theorem assign_ignores_order_status:
  assumes "ord \<in> set (orders st)" and "order_id ord = orderId"
    and "users st riderId = Some u" and "role u = ''rider''" and "isActive u"
    and "\<forall>x\<in>set (orders st). rider x = Some riderId \<longrightarrow> \<not> isActiveOrder x"
  shows "\<exists>ord0 ord' st' e.
           findById orderId st = Some ord0 \<and> ord0 \<in> set (orders st) \<and>
           order_id ord0 = orderId \<and>
           (distinct (map order_id (orders st)) \<longrightarrow> ord0 = ord) \<and>
           assign st orderId riderId now = Inr (ord', st') \<and>
           ord' = ord0\<lparr>rider := Some riderId, status := ''assigned'',
                       timeline := timeline ord0 @ [e]\<rparr> \<and>
           te_status e = ''assigned'' \<and> te_timestamp e = now \<and>
           order_id ord' = orderId \<and> rider ord' = Some riderId \<and>
           status ord' = ''assigned'' \<and>
           orders st' = map (\<lambda>x. if order_id x = orderId then ord' else x) (orders st) \<and>
           ord' \<in> set (orders st') \<and>
           (\<forall>x\<in>set (orders st'). order_id x = orderId \<longrightarrow> x = ord') \<and>
           users st' = users st"
proof -
  obtain found where f: "findById orderId st = Some found"
    using assms(1,2) find_ex [of ord "orders st" "\<lambda>x. order_id x = orderId"]
    by (auto simp: findById_def)
  then have fid: "order_id found = orderId" and fin: "found \<in> set (orders st)"
    using findById_SomeD [of orderId st found] by auto
  have same: "distinct (map order_id (orders st)) \<longrightarrow> found = ord"
    using distinct_same_id [of order_id "orders st" found ord] fin fid assms(1,2) by simp
  have r: "findActiveRider riderId st = Some u"
    using assms(3-5) by (simp add: findActiveRider_def)
  have a: "findActiveOrder riderId st = None"
    using assms(6) by (simp add: findActiveOrder_None_iff)
  let ?e = "\<lparr>te_status = ''assigned'', te_timestamp = now,
              te_notes = Str ''Order assigned to rider'', te_location = None\<rparr>"
  let ?new = "found\<lparr>rider := Some riderId, status := ''assigned'',
                     timeline := timeline found @ [?e]\<rparr>"
  let ?st = "setCurrentOrder riderId orderId (save ?new st)"
  have res: "assign st orderId riderId now = Inr (?new, ?st)"
    using f r a fid by (simp add: assign_def Let_def)
  have ords: "orders ?st = map (\<lambda>x. if order_id x = orderId then ?new else x) (orders st)"
    using fid by (simp add: save_def)
  have mem: "?new \<in> set (orders ?st)"
    using fin fid by (auto simp: set_save)
  have uniq: "\<forall>x\<in>set (orders ?st). order_id x = orderId \<longrightarrow> x = ?new"
    using fid by (auto simp: set_save split: if_splits)
  show ?thesis
    using f fin fid same res ords mem uniq
    by (intro exI [of _ found] exI [of _ ?new] exI [of _ ?st] exI [of _ ?e]) simp
qed

text \<open>
  C9, at an order that rider 8 has delivered: it is assigned to rider 7 and its status
  gets back to \<^verbatim>\<open>assigned\<close>; it keeps its identifier, its business and its
  details, and it is the one stored order afterwards.
\<close>

theorem assign_ignores_order_status_witness:
  "orders (sampleDb [sampleOrder 1 (Some 8) ''delivered''] None) =
     [sampleOrder 1 (Some 8) ''delivered''] \<and>
   users (sampleDb [sampleOrder 1 (Some 8) ''delivered''] None) 7 = Some activeRider \<and>
   role activeRider = ''rider'' \<and> isActive activeRider \<and>
   activeOrdersOf 7 (sampleDb [sampleOrder 1 (Some 8) ''delivered''] None) = [] \<and>
   fst (projr (assign (sampleDb [sampleOrder 1 (Some 8) ''delivered''] None) 1 7 10)) =
     (sampleOrder 1 (Some 8) ''delivered'')
       \<lparr>rider := Some 7, status := ''assigned'',
        timeline := timeline (sampleOrder 1 (Some 8) ''delivered'') @
          [\<lparr>te_status = ''assigned'', te_timestamp = 10,
            te_notes = Str ''Order assigned to rider'', te_location = None\<rparr>]\<rparr> \<and>
   orders (snd (projr (assign (sampleDb [sampleOrder 1 (Some 8) ''delivered''] None) 1 7 10))) =
     [fst (projr (assign (sampleDb [sampleOrder 1 (Some 8) ''delivered''] None) 1 7 10))] \<and>
   order_id (fst (projr (assign (sampleDb [sampleOrder 1 (Some 8) ''delivered''] None) 1 7 10)))
     = 1 \<and>
   \<not> isl (assign (sampleDb [sampleOrder 1 (Some 8) ''delivered''] None) 1 7 10)"
  using assign_ignores_order_status [of "sampleOrder 1 (Some 8) ''delivered''"
      "sampleDb [sampleOrder 1 (Some 8) ''delivered''] None" 1 7 activeRider 10]
  by (simp add: sampleDb_def sampleOrder_def activeRider_def assign_def findById_def
        findActiveRider_def findActiveOrder_def isActiveOrder_def activeStatuses_def
        setCurrentOrder_def save_def Let_def activeOrdersOf_def)

section \<open>Two assignments to one rider\<close>

text \<open>
  C4, as the specification states it, is false: the check for an active order and the
  writes are not one atomic step, and two assignments can both succeed. Orders 1 and 2
  are pending and rider 7 has no order. Two requests assign order 1 and order 2 to
  rider 7. The reads of both run first, on the same database: both find no active order
  of rider 7 and neither answers with an error. Then the writes of the first run, then
  the writes of the second. Both orders are then assigned to rider 7, who has two active
  orders, and no request has answered \<open>Conflict\<close>.
\<close>

theorem race_two_active:
  "assignCheck twoPendingDb 1 7 = Inr (sampleOrder 1 None ''pending'') \<and>
   assignCheck twoPendingDb 2 7 = Inr (sampleOrder 2 None ''pending'') \<and>
   map order_id (orders racedDb) = [1, 2] \<and>
   map rider (orders racedDb) = [Some 7, Some 7] \<and>
   map status (orders racedDb) = [''assigned'', ''assigned''] \<and>
   length (activeOrdersOf 7 racedDb) = 2"
  by (simp add: racedDb_def twoPendingDb_def sampleDb_def sampleOrder_def activeRider_def
        offlineAt_def assignCheck_def assignWrite_def findById_def findActiveRider_def
        findActiveOrder_def isActiveOrder_def activeStatuses_def setCurrentOrder_def
        save_def Let_def activeOrdersOf_def)

text \<open>
  C4, amended. When \<^verbatim>\<open>assign\<close> is invoked twice for the same rider with two
  orders and the second call starts after the first has finished, exactly one call
  succeeds: after a successful assignment to the rider, the assignment of any stored
  order to that rider answers \<open>Conflict\<close>. The check and the writes are separate steps
  with no lock or conditional write between them: when the checks of two calls for two
  distinct orders both run before the writes of either, both calls succeed, and both
  orders are stored as assigned to the rider.
\<close>

theorem assign_twice:
  "(assign st i r t = Inr (ordI, stI) \<and> (\<exists>x\<in>set (orders st). order_id x = j) \<longrightarrow>
      assign stI j r t' = Inl (Conflict ''Rider already has an active order'')) \<and>
   (assignCheck st i r = Inr a \<and> assignCheck st j r = Inr b \<and> i \<noteq> j \<longrightarrow>
      (\<exists>a' st1 b' st2.
         assignWrite st a r t = (a', st1) \<and> assignWrite st1 b r t' = (b', st2) \<and>
         order_id a' = i \<and> rider a' = Some r \<and> status a' = ''assigned'' \<and>
         order_id b' = j \<and> rider b' = Some r \<and> status b' = ''assigned'' \<and>
         a' \<in> set (orders st2) \<and> b' \<in> set (orders st2)))"
proof (intro conjI impI)
  assume h: "assign st i r t = Inr (ordI, stI) \<and> (\<exists>x\<in>set (orders st). order_id x = j)"
  then obtain ord where c: "assignCheck st i r = Inr ord"
    and w: "assignWrite st ord r t = (ordI, stI)"
    by (auto simp: split_is_assign split: sum.splits)
  from c have mem: "ord \<in> set (orders st)" and rd: "findActiveRider r st \<noteq> None"
    using assignCheck_InrD by blast+
  from w have new: "rider ordI = Some r" "status ordI = ''assigned''"
    "order_id ordI = order_id ord"
    and stI: "stI = setCurrentOrder r (order_id ordI) (save ordI st)"
    by (auto simp: assignWrite_def Let_def)
  have "ordI \<in> set (orders stI)"
    using mem new(3) stI by (auto simp: set_save)
  then have act: "findActiveOrder r stI \<noteq> None"
    using new(1,2) findActiveOrder_None_iff [of r stI]
    by (auto simp: isActiveOrder_def activeStatuses_def)
  have "map order_id (orders stI) = map order_id (orders st)"
    using stI by (simp add: save_def)
  then have "order_id ` set (orders stI) = order_id ` set (orders st)"
    by (metis set_map)
  moreover from h have "j \<in> order_id ` set (orders st)"
    by auto
  ultimately have "j \<in> order_id ` set (orders stI)"
    by simp
  then have "\<exists>x\<in>set (orders stI). order_id x = j"
    by auto
  then have ex: "findById j stI \<noteq> None"
    using findById_None_iff [of j stI] by auto
  have "findActiveRider r stI = findActiveRider r st"
    using stI by (simp add: findActiveRider_def)
  with rd have rd': "findActiveRider r stI \<noteq> None" by simp
  from ex rd' act show "assign stI j r t' = Inl (Conflict ''Rider already has an active order'')"
    by (auto simp: assign_def split: option.splits)
next
  assume h: "assignCheck st i r = Inr a \<and> assignCheck st j r = Inr b \<and> i \<noteq> j"
  then have a: "a \<in> set (orders st)" "order_id a = i"
    and b: "b \<in> set (orders st)" "order_id b = j" and ne: "i \<noteq> j"
    using assignCheck_InrD by blast+
  let ?e = "\<lambda>t. \<lparr>te_status = ''assigned'', te_timestamp = t,
                 te_notes = Str ''Order assigned to rider'', te_location = None\<rparr>"
  let ?a = "a\<lparr>rider := Some r, status := ''assigned'', timeline := timeline a @ [?e t]\<rparr>"
  let ?b = "b\<lparr>rider := Some r, status := ''assigned'', timeline := timeline b @ [?e t']\<rparr>"
  let ?st1 = "setCurrentOrder r i (save ?a st)"
  let ?st2 = "setCurrentOrder r j (save ?b ?st1)"
  have w1: "assignWrite st a r t = (?a, ?st1)"
    using a(2) by (simp add: assignWrite_def Let_def)
  have w2: "assignWrite ?st1 b r t' = (?b, ?st2)"
    using b(2) by (simp add: assignWrite_def Let_def)
  have a1: "?a \<in> set (orders ?st1)"
    using a by (auto simp: set_save)
  have b1: "b \<in> set (orders ?st1)"
    using a b ne by (auto simp: set_save)
  have a2: "?a \<in> set (orders ?st2)"
    using a1 a(2) b(2) ne by (auto simp: set_save)
  have b2: "?b \<in> set (orders ?st2)"
    using saved_mem [OF b1, of ?b] by simp
  show "\<exists>a' st1 b' st2.
         assignWrite st a r t = (a', st1) \<and> assignWrite st1 b r t' = (b', st2) \<and>
         order_id a' = i \<and> rider a' = Some r \<and> status a' = ''assigned'' \<and>
         order_id b' = j \<and> rider b' = Some r \<and> status b' = ''assigned'' \<and>
         a' \<in> set (orders st2) \<and> b' \<in> set (orders st2)"
    using w1 w2 a(2) b(2) a2 b2
    by (intro exI [of _ ?a] exI [of _ ?st1] exI [of _ ?b] exI [of _ ?st2]) simp
qed

text \<open>
  C4, amended, at the two pending orders and rider 7. One call after the other: the
  assignment of order 1 succeeds and the assignment of order 2 answers \<open>Conflict\<close>.
  Both checks before the writes: both checks pass and both writes store their order as
  assigned to rider 7.
\<close>

theorem assign_twice_witness:
  "\<not> isl (assign twoPendingDb 1 7 10) \<and>
   map order_id (orders twoPendingDb) = [1, 2] \<and>
   assign (snd (projr (assign twoPendingDb 1 7 10))) 2 7 11 =
     Inl (Conflict ''Rider already has an active order'') \<and>
   assignCheck twoPendingDb 1 7 = Inr (sampleOrder 1 None ''pending'') \<and>
   assignCheck twoPendingDb 2 7 = Inr (sampleOrder 2 None ''pending'') \<and>
   map status (orders (snd (assignWrite
       (snd (assignWrite twoPendingDb (sampleOrder 1 None ''pending'') 7 10))
       (sampleOrder 2 None ''pending'') 7 11))) = [''assigned'', ''assigned'']"
  using assign_twice [of twoPendingDb 1 7 10 "fst (projr (assign twoPendingDb 1 7 10))"
      "snd (projr (assign twoPendingDb 1 7 10))" 2 11
      "sampleOrder 1 None ''pending''" "sampleOrder 2 None ''pending''"]
  by (simp add: twoPendingDb_def sampleDb_def sampleOrder_def activeRider_def
        offlineAt_def assign_def assignCheck_def assignWrite_def findById_def
        findActiveRider_def findActiveOrder_def isActiveOrder_def activeStatuses_def
        setCurrentOrder_def save_def Let_def)

section \<open>The status update of the rider\<close>

text \<open>
  The only error of the status update is \<open>NotFound\<close>, and it is the answer exactly when
  no stored order has both the identifier and the acting rider.
\<close>

lemma transition_error_is_NotFound:
  "transition st i a s n la lo t1 t2 t3 = Inl e \<Longrightarrow> e = NotFound ''Order not found''"
  by (auto simp: transition_def Let_def split: option.splits)

lemma transition_NotFound_iff:
  "(transition st i a s n la lo t1 t2 t3 = Inl (NotFound ''Order not found'')) =
     (\<not> (\<exists>x\<in>set (orders st). order_id x = i \<and> rider x = Some a))"
proof (cases "findOwned i a st")
  case None
  then show ?thesis
    using findOwned_None_iff [of i a st] by (simp add: transition_def)
next
  case (Some ord)
  then show ?thesis
    using findOwned_SomeD [of i a st ord] by (auto simp: transition_def Let_def)
qed

text \<open>
  Any status string is accepted for an order that the rider owns, whatever the status of
  the order is: the order gets the status and one more timeline entry, with the status,
  the first clock reading and the notes of the request; the entry has the coordinates
  when both are truthy.
\<close>

lemma transition_any_status:
  assumes "x \<in> set (orders st)" and "order_id x = i" and "rider x = Some a"
  shows "\<exists>ord ord' st' evs.
     findOwned i a st = Some ord \<and>
     transition st i a s n la lo t1 t2 t3 = Inr (ord', st', evs) \<and>
     status ord' = s \<and>
     timeline ord' = timeline ord @
       [\<lparr>te_status = s, te_timestamp = t1, te_notes = n,
         te_location = (if truthy la \<and> truthy lo then Some (la, lo) else None)\<rparr>]"
proof -
  obtain ord where "findOwned i a st = Some ord"
    using assms find_ex [of x "orders st" "\<lambda>x. order_id x = i \<and> rider x = Some a"]
    by (auto simp: findOwned_def)
  then show ?thesis by (auto simp: transition_def Let_def)
qed

text \<open>The status update writes to the orders only.\<close>

lemma transition_keeps_riderLocations:
  "transition st i a s n la lo t1 t2 t3 = Inr (ord', st', evs) \<Longrightarrow>
     riderLocations st' = riderLocations st \<and> users st' = users st"
  by (auto simp: transition_def Let_def split: option.splits)

text \<open>
  C1. After a successful status update to \<^verbatim>\<open>delivered\<close> the actual delivery time
  of the order is set and the current order of the rider's location is unset: the
  code does the first and not the second. In the database where order 1 has just been
  assigned to rider 7, whose location record therefore points to order 1, rider 7 sets
  order 1 to \<^verbatim>\<open>delivered\<close>: the update succeeds, the order has the status and the
  second clock reading as its actual delivery time, and the location record of rider 7
  still points to order 1.
\<close>

theorem delivered_keeps_currentOrder:
  "map_option currentOrder (riderLocations assignedDb 7) = Some (Some 1) \<and>
   \<not> isl (transition assignedDb 1 7 ''delivered'' (Str ''done'') Undefined Undefined 10 11 12) \<and>
   status (fst (projr (transition assignedDb 1 7 ''delivered'' (Str ''done'')
                         Undefined Undefined 10 11 12))) = ''delivered'' \<and>
   actualDeliveryTime (fst (projr (transition assignedDb 1 7 ''delivered'' (Str ''done'')
                         Undefined Undefined 10 11 12))) = Some 11 \<and>
   map_option currentOrder
     (riderLocations (fst (snd (projr (transition assignedDb 1 7 ''delivered'' (Str ''done'')
                         Undefined Undefined 10 11 12)))) 7) = Some (Some 1)"
  by (simp add: assignedDb_def sampleDb_def sampleOrder_def activeRider_def offlineAt_def
        assign_def findById_def findActiveRider_def findActiveOrder_def isActiveOrder_def
        activeStatuses_def setCurrentOrder_def save_def transition_def findOwned_def Let_def)

text \<open>
  C6. The status update fails with \<open>NotFound\<close> exactly when no order has the
  identifier and the rider, accepts any status, and appends a timeline entry that has
  the location exactly when coordinates are supplied: the code does all but the last.
  The location is attached when latitude and longitude are truthy, and the number 0 is
  not. Rider 7 sets order 1 to \<^verbatim>\<open>picked_up\<close> with latitude 0 and longitude 32.5: the
  update succeeds, the new timeline entry has no location, and the event has the
  coordinates.
\<close>

theorem zero_latitude_drops_location:
  "\<not> isl (transition assignedDb 1 7 ''picked_up'' (Str ''at shop'') (Num 0) (Num 32.5) 10 11 12) \<and>
   te_status (last (timeline (fst (projr (transition assignedDb 1 7 ''picked_up''
       (Str ''at shop'') (Num 0) (Num 32.5) 10 11 12))))) = ''picked_up'' \<and>
   te_location (last (timeline (fst (projr (transition assignedDb 1 7 ''picked_up''
       (Str ''at shop'') (Num 0) (Num 32.5) 10 11 12))))) = None \<and>
   snd (snd (projr (transition assignedDb 1 7 ''picked_up''
       (Str ''at shop'') (Num 0) (Num 32.5) 10 11 12))) =
     [StatusUpdate 1 1 ''picked_up'' 12 (Some (Num 0, Num 32.5)) None]"
  by (simp add: assignedDb_def sampleDb_def sampleOrder_def activeRider_def offlineAt_def
        assign_def findById_def findActiveRider_def findActiveOrder_def isActiveOrder_def
        activeStatuses_def setCurrentOrder_def save_def transition_def findOwned_def Let_def)

section \<open>Failing an order\<close>

text \<open>
  C5, as the specification states it, is false: \<^verbatim>\<open>fail\<close> and the status update to
  \<^verbatim>\<open>failed\<close> do not have the same effects. For order 1 of rider 7, \<^verbatim>\<open>fail\<close>
  leaves the location record of rider 7 with no current order and emits an event with
  the reason; the status update with the same notes leaves the record pointing to
  order 1 and emits an event with a location object and no reason.
\<close>

theorem fail_clears_where_transition_keeps:
  "map_option currentOrder
     (riderLocations (fst (snd (projr (failOrder assignedDb 1 7 ''unreachable'' 10 12)))) 7)
     = Some None \<and>
   map_option currentOrder
     (riderLocations (fst (snd (projr (transition assignedDb 1 7 ''failed''
        (Str ''Delivery failed: unreachable'') Undefined Undefined 10 11 12)))) 7)
     = Some (Some 1) \<and>
   snd (snd (projr (failOrder assignedDb 1 7 ''unreachable'' 10 12))) =
     [StatusUpdate 1 1 ''failed'' 12 None (Some ''unreachable'')] \<and>
   snd (snd (projr (transition assignedDb 1 7 ''failed''
        (Str ''Delivery failed: unreachable'') Undefined Undefined 10 11 12))) =
     [StatusUpdate 1 1 ''failed'' 12 (Some (Undefined, Undefined)) None]"
  by (simp add: assignedDb_def sampleDb_def sampleOrder_def activeRider_def offlineAt_def
        assign_def findById_def findActiveRider_def findActiveOrder_def isActiveOrder_def
        activeStatuses_def setCurrentOrder_def unsetCurrentOrder_def save_def transition_def
        failOrder_def findOwned_def Let_def)

text \<open>
  C5, amended. \<^verbatim>\<open>fail(O, R, reason)\<close> fails exactly when the status update of
  \<open>O\<close> by \<open>R\<close> to \<^verbatim>\<open>failed\<close> with the notes \<^verbatim>\<open>"Delivery failed: " + reason\<close> and
  no coordinates fails, with the same error. When that update succeeds, \<^verbatim>\<open>fail\<close>
  answers with the order of the update with the failure reason set, stores that order,
  unsets the current order of the rider's location record, and emits one status event
  for the order, with the status \<^verbatim>\<open>failed\<close>, the time of the update's event, the
  reason and no location.
\<close>

theorem fail_as_transition:
  "failOrder st i a reason t1 t3 =
     (case transition st i a ''failed'' (Str (''Delivery failed: '' @ reason))
             Undefined Undefined t1 t2 t3 of
        Inl e \<Rightarrow> Inl e
      | Inr (ordT, stT, evT) \<Rightarrow>
          Inr (ordT\<lparr>failureReason := Some reason\<rparr>,
               unsetCurrentOrder a
                 (stT\<lparr>orders :=
                    map (\<lambda>x. if order_id x = i then x\<lparr>failureReason := Some reason\<rparr> else x)
                      (orders stT)\<rparr>),
               [StatusUpdate i i ''failed'' t3 None (Some reason)]))"
proof (cases "findOwned i a st")
  case None
  then show ?thesis by (simp add: failOrder_def transition_def)
next
  case (Some ord)
  then have "order_id ord = i"
    using findOwned_SomeD by blast
  with Some show ?thesis
    by (simp add: failOrder_def transition_def Let_def save_def unsetCurrentOrder_def comp_def
          split: option.splits)
qed

text \<open>
  C5, amended, at order 1 of rider 7, which fails with the order of the status update
  and the reason, and at order 2, which does not exist.
\<close>

theorem fail_as_transition_witness:
  "\<not> isl (failOrder assignedDb 1 7 ''unreachable'' 10 12) \<and>
   fst (projr (failOrder assignedDb 1 7 ''unreachable'' 10 12)) =
     (fst (projr (transition assignedDb 1 7 ''failed'' (Str ''Delivery failed: unreachable'')
        Undefined Undefined 10 11 12)))\<lparr>failureReason := Some ''unreachable''\<rparr> \<and>
   failOrder assignedDb 2 7 ''unreachable'' 10 12 = Inl (NotFound ''Order not found'') \<and>
   transition assignedDb 2 7 ''failed'' (Str ''Delivery failed: unreachable'')
        Undefined Undefined 10 11 12 = Inl (NotFound ''Order not found'')"
  using fail_as_transition [of assignedDb 1 7 "''unreachable''" 10 12 11]
    fail_as_transition [of assignedDb 2 7 "''unreachable''" 10 12 11]
  by (simp add: assignedDb_def sampleDb_def sampleOrder_def activeRider_def offlineAt_def
        assign_def findById_def findActiveRider_def findActiveOrder_def isActiveOrder_def
        activeStatuses_def setCurrentOrder_def unsetCurrentOrder_def save_def transition_def
        failOrder_def findOwned_def Let_def)

section \<open>One active order per rider\<close>

text \<open>\<open>atMostOneActive\<close> says that every rider has at most one active order.\<close>

lemma atMostOneActive_iff:
  "atMostOneActive st = (\<forall>r. length (activeOrdersOf r st) \<le> 1)"
proof
  assume a: "atMostOneActive st"
  show "\<forall>r. length (activeOrdersOf r st) \<le> 1"
  proof
    fix r
    show "length (activeOrdersOf r st) \<le> 1"
    proof (cases "activeOrdersOf r st")
      case Nil
      then show ?thesis by simp
    next
      case (Cons x xs)
      then have "x \<in> set (activeOrdersOf r st)" by simp
      then have "x \<in> set (orders st)" "rider x = Some r"
        by (simp_all add: activeOrdersOf_def)
      with a show ?thesis
        by (auto simp: atMostOneActive_def)
    qed
  qed
next
  assume "\<forall>r. length (activeOrdersOf r st) \<le> 1"
  then show "atMostOneActive st"
    by (auto simp: atMostOneActive_def split: option.splits)
qed

lemma length_filter_replace:
  "length (filter P (map (\<lambda>x. if f x = i then y else x) xs)) =
     length (filter (\<lambda>x. P x \<and> f x \<noteq> i) xs) +
     (if P y then length (filter (\<lambda>x. f x = i) xs) else 0)"
  by (induction xs) auto

lemma length_filter_conj_le:
  "length (filter (\<lambda>x. P x \<and> Q x) xs) \<le> length (filter P xs)"
  by (induction xs) auto

lemma distinct_filter_le1:
  "distinct (map f xs) \<Longrightarrow> length (filter (\<lambda>x. f x = i) xs) \<le> Suc 0"
  by (induction xs) (auto simp: filter_empty_conv image_iff)

lemma active_after_save:
  assumes d: "distinct (map order_id (orders st))"
    and le: "length (activeOrdersOf r st) \<le> 1"
    and new: "rider ord = Some r \<and> isActiveOrder ord \<longrightarrow>
        (\<forall>x\<in>set (orders st). rider x = Some r \<and> isActiveOrder x \<longrightarrow> order_id x = order_id ord)"
  shows "length (activeOrdersOf r (save ord st)) \<le> 1"
proof -
  let ?P = "\<lambda>x. rider x = Some r \<and> isActiveOrder x"
  have eq: "length (activeOrdersOf r (save ord st)) =
      length (filter (\<lambda>x. ?P x \<and> order_id x \<noteq> order_id ord) (orders st)) +
      (if ?P ord then length (filter (\<lambda>x. order_id x = order_id ord) (orders st)) else 0)"
    using length_filter_replace [of ?P order_id "order_id ord" ord "orders st"]
    by (simp add: activeOrdersOf_def save_def)
  show ?thesis
  proof (cases "?P ord")
    case True
    with new have "filter (\<lambda>x. ?P x \<and> order_id x \<noteq> order_id ord) (orders st) = []"
      by (auto simp: filter_empty_conv)
    with True eq show ?thesis
      using distinct_filter_le1 [OF d, of "order_id ord"] by simp
  next
    case False
    have "length (filter (\<lambda>x. ?P x \<and> order_id x \<noteq> order_id ord) (orders st))
        \<le> length (filter ?P (orders st))"
      by (rule length_filter_conj_le)
    moreover from False eq have "length (activeOrdersOf r (save ord st)) =
        length (filter (\<lambda>x. ?P x \<and> order_id x \<noteq> order_id ord) (orders st))"
      by auto
    moreover from le have "length (filter ?P (orders st)) \<le> 1"
      by (simp add: activeOrdersOf_def)
    ultimately show ?thesis by linarith
  qed
qed

lemma activeOrdersOf_setCurrentOrder [simp]:
  "activeOrdersOf r (setCurrentOrder a i st) = activeOrdersOf r st"
  by (simp add: activeOrdersOf_def)

lemma activeOrdersOf_unsetCurrentOrder [simp]:
  "activeOrdersOf r (unsetCurrentOrder a st) = activeOrdersOf r st"
  by (simp add: activeOrdersOf_def)

lemma activeOrdersOf_Nil_iff:
  "(activeOrdersOf r st = []) = (findActiveOrder r st = None)"
  by (auto simp: findActiveOrder_def activeOrdersOf_def find_None_iff filter_empty_conv)

lemma handle_one_active:
  assumes d: "distinct (map order_id (orders st))"
    and inv: "\<forall>r. length (activeOrdersOf r st) \<le> 1"
    and ex: "exclusive st req"
  shows "length (activeOrdersOf r (handle st req)) \<le> 1"
proof (cases req)
  case (Create i b dt t)
  then show ?thesis
    using inv [rule_format, of r]
    by (auto simp: createOrder_def Let_def activeOrdersOf_def)
next
  case (Assign i a t)
  show ?thesis
  proof (cases "assign st i a t")
    case (Inl e)
    with Assign inv show ?thesis by simp
  next
    case (Inr res)
    then obtain ord where f: "findById i st = Some ord"
      and na: "findActiveOrder a st = None"
      and res: "res = (ord\<lparr>rider := Some a, status := ''assigned'',
                 timeline := timeline ord @ [\<lparr>te_status = ''assigned'', te_timestamp = t,
                   te_notes = Str ''Order assigned to rider'', te_location = None\<rparr>]\<rparr>,
             setCurrentOrder a (order_id ord) (save (ord\<lparr>rider := Some a, status := ''assigned'',
                 timeline := timeline ord @ [\<lparr>te_status = ''assigned'', te_timestamp = t,
                   te_notes = Str ''Order assigned to rider'', te_location = None\<rparr>]\<rparr>) st))"
      by (auto simp: assign_def Let_def split: option.splits)
    let ?new = "ord\<lparr>rider := Some a, status := ''assigned'',
                 timeline := timeline ord @ [\<lparr>te_status = ''assigned'', te_timestamp = t,
                   te_notes = Str ''Order assigned to rider'', te_location = None\<rparr>]\<rparr>"
    have "length (activeOrdersOf r (save ?new st)) \<le> 1"
    proof (rule active_after_save [OF d inv [rule_format]], intro impI ballI)
      fix x assume "rider ?new = Some r \<and> isActiveOrder ?new"
        and "x \<in> set (orders st)" and "rider x = Some r \<and> isActiveOrder x"
      then have "x \<in> set (activeOrdersOf a st)"
        by (simp add: activeOrdersOf_def)
      with na show "order_id x = order_id ?new"
        using activeOrdersOf_Nil_iff [of a st] by simp
    qed
    with Assign Inr res show ?thesis by simp
  qed
next
  case (Transition i a s n la lo t1 t2 t3)
  show ?thesis
  proof (cases "transition st i a s n la lo t1 t2 t3")
    case (Inl e)
    with Transition inv show ?thesis by simp
  next
    case (Inr res)
    then obtain ord ord' where f: "findOwned i a st = Some ord"
      and res: "res = (ord', save ord' st, [StatusUpdate (order_id ord') (order_id ord') s t3 (Some (la, lo)) None])"
      and o': "rider ord' = rider ord" "status ord' = s" "order_id ord' = order_id ord"
      by (auto simp: transition_def Let_def split: option.splits if_splits)
    from f have own: "order_id ord = i" "rider ord = Some a"
      using findOwned_SomeD by blast+
    have "length (activeOrdersOf r (save ord' st)) \<le> 1"
    proof (rule active_after_save [OF d inv [rule_format]], intro impI ballI)
      fix x assume n: "rider ord' = Some r \<and> isActiveOrder ord'"
        and x: "x \<in> set (orders st)" "rider x = Some r \<and> isActiveOrder x"
      from n o' own have "r = a" "s \<in> set activeStatuses"
        by (auto simp: isActiveOrder_def)
      with ex Transition x show "order_id x = order_id ord'"
        using o' own by auto
    qed
    with Transition Inr res show ?thesis by simp
  qed
next
  case (Fail i a reason t1 t2)
  show ?thesis
  proof (cases "failOrder st i a reason t1 t2")
    case (Inl e)
    with Fail inv show ?thesis by simp
  next
    case (Inr res)
    then obtain ord' where res: "res = (ord', unsetCurrentOrder a (save ord' st),
        [StatusUpdate (order_id ord') (order_id ord') ''failed'' t2 None (Some reason)])"
      and o': "status ord' = ''failed''"
      by (auto simp: failOrder_def Let_def split: option.splits)
    have "length (activeOrdersOf r (save ord' st)) \<le> 1"
      by (rule active_after_save [OF d inv [rule_format]])
         (simp add: o' isActiveOrder_def activeStatuses_def)
    with Fail Inr res show ?thesis by simp
  qed
qed

lemma handle_distinct:
  "distinct (map order_id (orders st)) \<Longrightarrow> distinct (map order_id (orders (handle st req)))"
  by (cases req)
     (auto simp: createOrder_def assign_def transition_def failOrder_def Let_def distinct_save
           split: option.splits sum.splits)

text \<open>
  C2, as the specification states it, is false: a reachable database has two active
  orders of one rider. From the database with no orders, order 1 is created, assigned
  to rider 7 and delivered, and order 2 is created and assigned to rider 7; every rider
  has at most one active order then. Rider 7 now sets order 1, which is still theirs, to
  \<^verbatim>\<open>in_transit\<close>: the status update accepts it, and rider 7 has two active orders.
\<close>

theorem two_active_orders_reachable:
  "atMostOneActive (serve (sampleDb [] None) history) \<and>
   length (activeOrdersOf 7 (serve (sampleDb [] None) (history @ [reopen]))) = 2"
  by (simp add: history_def reopen_def serve_def sampleDb_def sampleDetails_def
        activeRider_def offlineAt_def createOrder_def assign_def transition_def
        findById_def findOwned_def findActiveOrder_def findActiveRider_def save_def
        setCurrentOrder_def isActiveOrder_def activeStatuses_def Let_def
        atMostOneActive_def activeOrdersOf_def)

text \<open>
  C2, amended. In a database whose orders have pairwise different identifiers and where
  every rider has at most one active order, every create, assign and fail request, and
  every status update that is not to an active status or whose rider has no active order
  other than the one updated, leaves a database with the same two properties. (A status
  update to an active status by a rider who has another active order is accepted and
  gives that rider two.)
\<close>

theorem handle_keeps_one_active:
  assumes "distinct (map order_id (orders st))" and "atMostOneActive st"
    and "exclusive st req"
  shows "distinct (map order_id (orders (handle st req))) \<and> atMostOneActive (handle st req)"
  using assms handle_one_active [of st req] handle_distinct [of st req]
  by (simp add: atMostOneActive_iff)

text \<open>
  C2, amended, at the database after the five requests above, where rider 7 sets the
  active order 2 to \<^verbatim>\<open>picked_up\<close>.
\<close>

theorem handle_keeps_one_active_witness:
  "distinct (map order_id (orders (serve (sampleDb [] None) history))) \<and>
   atMostOneActive (serve (sampleDb [] None) history) \<and>
   exclusive (serve (sampleDb [] None) history)
     (Transition 2 7 ''picked_up'' Undefined Undefined Undefined 6 6 6) \<and>
   distinct (map order_id (orders (handle (serve (sampleDb [] None) history)
     (Transition 2 7 ''picked_up'' Undefined Undefined Undefined 6 6 6)))) \<and>
   atMostOneActive (handle (serve (sampleDb [] None) history)
     (Transition 2 7 ''picked_up'' Undefined Undefined Undefined 6 6 6))"
  using handle_keeps_one_active [of "serve (sampleDb [] None) history"
      "Transition 2 7 ''picked_up'' Undefined Undefined Undefined 6 6 6"]
  by (simp add: history_def serve_def sampleDb_def sampleDetails_def
        activeRider_def offlineAt_def createOrder_def assign_def transition_def
        findById_def findOwned_def findActiveOrder_def findActiveRider_def save_def
        setCurrentOrder_def isActiveOrder_def activeStatuses_def Let_def
        atMostOneActive_def activeOrdersOf_def)

section \<open>The timeline of an order\<close>

lemma extends_refl: "extends st st"
  by (auto simp: extends_def)

lemma extends_trans: "extends a b \<Longrightarrow> extends b c \<Longrightarrow> extends a c"
  unfolding extends_def by (metis prefix_order.order_trans)

text \<open>What a request does to the orders: nothing, or it adds an order with a new
  identifier and one timeline entry, or it replaces a stored order by one with the same
  identifier and one more timeline entry. The entry has the clock reading of the request
  and the status of the order.\<close>

lemma handle_orders:
  "orders (handle st req) = orders st \<or>
   (\<exists>new e. orders (handle st req) = orders st @ [new] \<and>
      order_id new \<notin> set (map order_id (orders st)) \<and> timeline new = [e] \<and>
      te_timestamp e = requestTime req \<and> te_status e = status new) \<or>
   (\<exists>ord ord' e. ord \<in> set (orders st) \<and> orders (handle st req) = orders (save ord' st) \<and>
      order_id ord' = order_id ord \<and> timeline ord' = timeline ord @ [e] \<and>
      te_timestamp e = requestTime req \<and> te_status e = status ord')"
proof (cases req)
  case (Create i b dt t)
  then show ?thesis
    by (auto simp: createOrder_def Let_def)
next
  case (Assign i a t)
  show ?thesis
  proof (cases "assign st i a t")
    case (Inl e)
    with Assign show ?thesis by simp
  next
    case (Inr res)
    then obtain ord ord' e where f: "findById i st = Some ord"
      and res: "orders (snd res) = orders (save ord' st)"
      and o': "order_id ord' = order_id ord" "timeline ord' = timeline ord @ [e]"
         "te_timestamp e = t" "te_status e = status ord'"
      by (auto simp: assign_def Let_def split: option.splits)
    from f have "ord \<in> set (orders st)"
      using findById_SomeD by blast
    with Assign Inr res o' show ?thesis
      by (cases res) auto
  qed
next
  case (Transition i a s n la lo t1 t2 t3)
  show ?thesis
  proof (cases "transition st i a s n la lo t1 t2 t3")
    case (Inl e)
    with Transition show ?thesis by simp
  next
    case (Inr res)
    then obtain ord ord' e where f: "findOwned i a st = Some ord"
      and res: "fst (snd res) = save ord' st"
      and o': "order_id ord' = order_id ord" "timeline ord' = timeline ord @ [e]"
         "te_timestamp e = t1" "te_status e = status ord'"
      by (auto simp: transition_def Let_def split: option.splits if_splits)
    from f have "ord \<in> set (orders st)"
      using findOwned_SomeD by blast
    with Transition Inr res o' show ?thesis
      by (cases res) auto
  qed
next
  case (Fail i a reason t1 t2)
  show ?thesis
  proof (cases "failOrder st i a reason t1 t2")
    case (Inl e)
    with Fail show ?thesis by simp
  next
    case (Inr res)
    then obtain ord ord' e where f: "findOwned i a st = Some ord"
      and res: "orders (fst (snd res)) = orders (save ord' st)"
      and o': "order_id ord' = order_id ord" "timeline ord' = timeline ord @ [e]"
         "te_timestamp e = t1" "te_status e = status ord'"
      by (auto simp: failOrder_def Let_def split: option.splits)
    from f have "ord \<in> set (orders st)"
      using findOwned_SomeD by blast
    with Fail Inr res o' show ?thesis
      by (cases res) auto
  qed
qed


lemma handle_storeOk:
  assumes ok: "storeOk st"
  shows "storeOk (handle st req) \<and> extends st (handle st req)"
proof -
  have d: "distinct (map order_id (orders st))"
    and tl: "\<forall>x\<in>set (orders st). timelineOk x"
    using ok by (simp_all add: storeOk_def)
  from handle_orders [of st req] consider
    (same) "orders (handle st req) = orders st"
  | (added) new e where "orders (handle st req) = orders st @ [new]"
      "order_id new \<notin> set (map order_id (orders st))" "timeline new = [e]"
      "te_status e = status new"
  | (saved) ord ord' e where "ord \<in> set (orders st)"
      "orders (handle st req) = orders (save ord' st)"
      "order_id ord' = order_id ord" "timeline ord' = timeline ord @ [e]"
      "te_status e = status ord'"
    by blast
  then show ?thesis
  proof cases
    case same
    with ok show ?thesis
      by (simp add: storeOk_def extends_def) blast
  next
    case added
    with d tl show ?thesis
      by (auto simp: storeOk_def extends_def timelineOk_def)
  next
    case saved
    have new: "timelineOk ord'"
      using saved(4,5) by (simp add: timelineOk_def)
    have "\<forall>y\<in>set (orders (save ord' st)). timelineOk y"
      using tl new by (auto simp: set_save split: if_splits)
    moreover have "\<forall>x\<in>set (orders st). \<exists>y\<in>set (orders (save ord' st)).
        order_id y = order_id x \<and> prefix (timeline x) (timeline y)"
    proof
      fix x assume x: "x \<in> set (orders st)"
      show "\<exists>y\<in>set (orders (save ord' st)).
          order_id y = order_id x \<and> prefix (timeline x) (timeline y)"
      proof (cases "order_id x = order_id ord'")
        case True
        then have "x = ord"
          using distinct_same_id [OF d x saved(1)] saved(3) by simp
        moreover have "ord' \<in> set (orders (save ord' st))"
          using saved(1,3) by (auto simp: set_save)
        ultimately show ?thesis
          using saved(3,4) by (intro bexI [of _ ord']) auto
      next
        case False
        then have "x \<in> set (orders (save ord' st))"
          using x by (simp add: set_save)
        then show ?thesis by auto
      qed
    qed
    ultimately show ?thesis
      using d saved(2) by (simp add: storeOk_def extends_def distinct_save)
  qed
qed

lemma timestampsOk_mono: "timestampsOk t ord \<Longrightarrow> t \<le> t' \<Longrightarrow> timestampsOk t' ord"
  by (auto simp: timestampsOk_def)

lemma handle_timestampsOk:
  assumes ts: "\<forall>x\<in>set (orders st). timestampsOk t x" and le: "t \<le> requestTime req"
  shows "\<forall>y\<in>set (orders (handle st req)). timestampsOk (requestTime req) y"
proof -
  have old: "\<forall>x\<in>set (orders st). timestampsOk (requestTime req) x"
    using ts le timestampsOk_mono by blast
  from handle_orders [of st req] consider
    (same) "orders (handle st req) = orders st"
  | (added) new e where "orders (handle st req) = orders st @ [new]"
      "timeline new = [e]" "te_timestamp e = requestTime req"
  | (saved) ord ord' e where "ord \<in> set (orders st)"
      "orders (handle st req) = orders (save ord' st)"
      "timeline ord' = timeline ord @ [e]" "te_timestamp e = requestTime req"
    by blast
  then show ?thesis
  proof cases
    case same
    with old show ?thesis by simp
  next
    case added
    with old show ?thesis
      by (auto simp: timestampsOk_def)
  next
    case saved
    have "timestampsOk t ord"
      using ts saved(1) by blast
    with le saved(3,4) have "timestampsOk (requestTime req) ord'"
      by (auto simp: timestampsOk_def sorted_append)
    with old saved(2) show ?thesis
      by (auto simp: set_save split: if_splits)
  qed
qed

lemma serve_append: "serve st (xs @ ys) = serve (serve st xs) ys"
  by (simp add: serve_def)

lemma serve_storeOk:
  "storeOk st \<Longrightarrow> storeOk (serve st reqs) \<and> extends st (serve st reqs)"
proof (induction reqs arbitrary: st)
  case Nil
  then show ?case by (simp add: serve_def extends_refl)
next
  case (Cons req reqs)
  note h = handle_storeOk [OF Cons.prems, of req]
  from Cons.IH [OF h [THEN conjunct1]] h [THEN conjunct2]
  show ?case
    by (auto simp: serve_def intro: extends_trans)
qed

lemma serve_timestampsOk:
  "\<forall>x\<in>set (orders st). timestampsOk t x \<Longrightarrow> sorted (t # map requestTime reqs) \<Longrightarrow>
     \<forall>y\<in>set (orders (serve st reqs)). timestampsOk (last (t # map requestTime reqs)) y"
proof (induction reqs arbitrary: t st)
  case Nil
  then show ?case by (simp add: serve_def)
next
  case (Cons req reqs)
  from Cons.prems have le: "t \<le> requestTime req"
    and s: "sorted (requestTime req # map requestTime reqs)"
    by auto
  from Cons.IH [OF handle_timestampsOk [OF Cons.prems(1) le] s]
  show ?case by (simp add: serve_def)
qed

text \<open>
  C7, as the specification states it, is false for the timestamps: they are the readings
  of the server clock, and nothing in the handlers keeps them in order. Order 1 is
  assigned to rider 7 at time 6; rider 7 picks it up when the clock reads 10 and fails
  it when the clock, set back in between, reads 7. The timeline then has the timestamps
  5, 6, 10 and 7.
\<close>

theorem timestamps_follow_the_clock:
  "distinct (map order_id (orders assignedDb)) \<and>
   list_all timelineOk (orders assignedDb) \<and>
   list_all (timestampsOk 6) (orders assignedDb) \<and>
   map (\<lambda>y. map te_timestamp (timeline y)) (orders (serve assignedDb
      [Transition 1 7 ''picked_up'' Undefined (Num 1) (Num 2) 10 10 10,
       Fail 1 7 ''unreachable'' 7 8])) = [[5, 6, 10, 7]] \<and>
   \<not> list_all (\<lambda>y. sorted (map te_timestamp (timeline y))) (orders (serve assignedDb
      [Transition 1 7 ''picked_up'' Undefined (Num 1) (Num 2) 10 10 10,
       Fail 1 7 ''unreachable'' 7 8]))"
  by (simp add: assignedDb_def sampleDb_def sampleOrder_def activeRider_def offlineAt_def
        serve_def assign_def transition_def failOrder_def findById_def findOwned_def
        findActiveOrder_def findActiveRider_def save_def setCurrentOrder_def
        unsetCurrentOrder_def isActiveOrder_def activeStatuses_def Let_def timelineOk_def
        timestampsOk_def)

text \<open>
  C7, amended. Take a database whose orders have pairwise different identifiers and
  timelines that end with the status of their order (the database with no orders is
  one), and any sequence of create, assign, status update and fail requests. At every
  point of the sequence the timeline of every order is not empty and its last entry has
  the status of the order; every order that is stored at one point is stored at every
  later point with a timeline that starts with the one it had: entries are appended,
  none is changed or removed. The timestamps are the readings of the server clock: they
  never decrease in any timeline provided that the timelines at the start are in order
  up to a time \<open>t\<close> and the readings of the requests start no earlier than \<open>t\<close> and
  never decrease.
\<close>

theorem timeline_append_only:
  assumes "distinct (map order_id (orders st))"
    and "\<forall>x\<in>set (orders st). timelineOk x"
  shows "(\<forall>y\<in>set (orders (serve st (reqs1 @ reqs2))).
            timeline y \<noteq> [] \<and> te_status (last (timeline y)) = status y) \<and>
         (\<forall>x\<in>set (orders (serve st reqs1)). \<exists>y\<in>set (orders (serve st (reqs1 @ reqs2))).
            order_id y = order_id x \<and> prefix (timeline x) (timeline y)) \<and>
         ((\<forall>x\<in>set (orders st). timestampsOk t x) \<and>
          sorted (t # map requestTime (reqs1 @ reqs2)) \<longrightarrow>
            (\<forall>y\<in>set (orders (serve st (reqs1 @ reqs2))).
               sorted (map te_timestamp (timeline y))))"
proof -
  have ok: "storeOk st"
    using assms by (simp add: storeOk_def)
  note a = serve_storeOk [OF ok, of reqs1]
  note b = serve_storeOk [OF a [THEN conjunct1], of reqs2]
  have "\<forall>y\<in>set (orders (serve st (reqs1 @ reqs2))).
            timeline y \<noteq> [] \<and> te_status (last (timeline y)) = status y"
    using serve_storeOk [OF ok, of "reqs1 @ reqs2"]
    by (simp add: storeOk_def timelineOk_def)
  moreover have "\<forall>x\<in>set (orders (serve st reqs1)). \<exists>y\<in>set (orders (serve st (reqs1 @ reqs2))).
            order_id y = order_id x \<and> prefix (timeline x) (timeline y)"
    using b by (simp add: serve_append extends_def)
  moreover have "(\<forall>x\<in>set (orders st). timestampsOk t x) \<and>
          sorted (t # map requestTime (reqs1 @ reqs2)) \<longrightarrow>
            (\<forall>y\<in>set (orders (serve st (reqs1 @ reqs2))).
               sorted (map te_timestamp (timeline y)))"
    using serve_timestampsOk [of st t "reqs1 @ reqs2"]
    by (auto simp: timestampsOk_def)
  ultimately show ?thesis by blast
qed

text \<open>
  C7, amended, at the database where order 1 is assigned to rider 7 at time 6: rider 7 picks the
  order up at time 10 and fails it at time 12. The order then has the status
  \<^verbatim>\<open>failed\<close> and a timeline of four entries, the last of them \<^verbatim>\<open>failed\<close>, at
  the times 5, 6, 10 and 12.
\<close>

theorem timeline_append_only_witness:
  "distinct (map order_id (orders assignedDb)) \<and>
   list_all timelineOk (orders assignedDb) \<and>
   list_all (timestampsOk 6) (orders assignedDb) \<and>
   sorted (6 # map requestTime
      ([Transition 1 7 ''picked_up'' Undefined (Num 1) (Num 2) 10 10 10] @
       [Fail 1 7 ''unreachable'' 12 13])) \<and>
   map status (orders (serve assignedDb
      ([Transition 1 7 ''picked_up'' Undefined (Num 1) (Num 2) 10 10 10] @
       [Fail 1 7 ''unreachable'' 12 13]))) = [''failed''] \<and>
   map (\<lambda>y. map te_status (timeline y)) (orders (serve assignedDb
      ([Transition 1 7 ''picked_up'' Undefined (Num 1) (Num 2) 10 10 10] @
       [Fail 1 7 ''unreachable'' 12 13]))) =
     [[''pending'', ''assigned'', ''picked_up'', ''failed'']] \<and>
   map (\<lambda>y. map te_timestamp (timeline y)) (orders (serve assignedDb
      ([Transition 1 7 ''picked_up'' Undefined (Num 1) (Num 2) 10 10 10] @
       [Fail 1 7 ''unreachable'' 12 13]))) = [[5, 6, 10, 12]]"
  using timeline_append_only [of assignedDb
      "[Transition 1 7 ''picked_up'' Undefined (Num 1) (Num 2) 10 10 10]"
      "[Fail 1 7 ''unreachable'' 12 13]" 6]
  by (simp add: assignedDb_def sampleDb_def sampleOrder_def activeRider_def offlineAt_def
        serve_def assign_def transition_def failOrder_def findById_def findOwned_def
        findActiveOrder_def findActiveRider_def save_def setCurrentOrder_def
        unsetCurrentOrder_def isActiveOrder_def activeStatuses_def Let_def timelineOk_def
        timestampsOk_def)

end
